theory Spec2Isabelle
  imports Complex_Main "HOL-Library.Multiset"
begin

section \<open>Python arithmetic used by the formula library\<close>

text \<open>
  The library (\<^verbatim>\<open>finance_formulas.py\<close>; the second listing repeats its first nine
  functions verbatim) is a flat set of pure functions on numbers. Its arithmetic is
  formalised twice.

  The first part reads the operators as exact operations on real numbers, with the period
  counts \<open>n\<close> and the compounding frequency as integers (the types the docstrings give
  them). It keeps the failures that do not depend on the size of a number: \<^verbatim>\<open>/\<close> raises
  \<^verbatim>\<open>ZeroDivisionError\<close> on a zero divisor, \<^verbatim>\<open>**\<close> raises it for a zero base with a negative
  exponent and returns a \<^verbatim>\<open>complex\<close> for a negative base with a non-integer exponent, and
  \<^verbatim>\<open>math.sqrt\<close> raises \<^verbatim>\<open>ValueError\<close> on a negative argument. It does not contain
  rounding, the \<^verbatim>\<open>OverflowError\<close> of \<^verbatim>\<open>**\<close>, or the underflow of a power to zero. Only
  properties that these do not touch are stated in it: the equality of two identical
  branches, a product formula that prescribes no order of rounding, a single division,
  and the kind of result of one concrete call.

  The second part reads the same source lines in binary64 floating point, with rounding,
  overflow, underflow, infinities and NaN. Every property that compares two ways of
  computing a number, or promises that a value is returned, is stated there.
\<close>

datatype error = ZeroDivisionError | ValueError | OverflowError

text \<open>Sequencing of a computation that may raise.\<close>

definition bind :: "error + 'a \<Rightarrow> ('a \<Rightarrow> error + 'b) \<Rightarrow> error + 'b" where
  "bind m f = (case m of Inl e \<Rightarrow> Inl e | Inr x \<Rightarrow> f x)"

section \<open>Exact arithmetic\<close>

text \<open>A Python number after \<^verbatim>\<open>**\<close>: a float, or a complex.\<close>

datatype pynum = PyFloat real | PyComplex complex

text \<open>True division \<^verbatim>\<open>a / b\<close>.\<close>

definition truediv :: "real \<Rightarrow> real \<Rightarrow> error + real" where
  "truediv a b = (if b = 0 then Inl ZeroDivisionError else Inr (a / b))"

text \<open>
  \<^verbatim>\<open>b ** n\<close> with an integer exponent, as an exact power: \<^verbatim>\<open>0 ** 0\<close> is 1, a zero base
  with a negative exponent raises, any other case is the integer power. The overflow and
  the underflow of the power are in \<open>float_pow\<close> below, not here.
\<close>

definition pow_int :: "real \<Rightarrow> int \<Rightarrow> error + real" where
  "pow_int b n =
     (if 0 \<le> n then Inr (b ^ nat n)
      else if b = 0 then Inl ZeroDivisionError
      else Inr (1 / b ^ nat (- n)))"

text \<open>
  \<^verbatim>\<open>v ** w\<close> with a float exponent, in the order of the interpreter's case analysis:
  exponent zero; base zero; negative base with a non-integer exponent (the result is the
  complex power, of modulus \<open>\<bar>v\<bar> powr w\<close> and argument \<open>pi * w\<close>); negative base with
  an integer exponent (the sign follows the parity); positive base. The modulus is the
  exact one: the \<^verbatim>\<open>OverflowError\<close> that the interpreter raises when it leaves the binary64
  range, and its rounding (to zero, when it is small enough), are not in this definition.
\<close>

definition pow_float :: "real \<Rightarrow> real \<Rightarrow> error + pynum" where
  "pow_float v w =
     (if w = 0 then Inr (PyFloat 1)
      else if v = 0 then (if w < 0 then Inl ZeroDivisionError else Inr (PyFloat 0))
      else if v < 0 \<and> w \<noteq> of_int \<lfloor>w\<rfloor>
        then Inr (PyComplex (Complex (\<bar>v\<bar> powr w * cos (pi * w)) (\<bar>v\<bar> powr w * sin (pi * w))))
      else if v < 0
        then Inr (PyFloat ((if odd \<lfloor>w\<rfloor> then - 1 else 1) * (\<bar>v\<bar> powr w)))
      else Inr (PyFloat (v powr w)))"

text \<open>\<^verbatim>\<open>x - 1\<close> on the result of a power: a complex stays complex.\<close>

fun minus_one :: "pynum \<Rightarrow> pynum" where
  "minus_one (PyFloat x) = PyFloat (x - 1)"
| "minus_one (PyComplex z) = PyComplex (z - 1)"

text \<open>\<^verbatim>\<open>math.sqrt\<close>: a domain error below zero.\<close>

definition math_sqrt :: "real \<Rightarrow> error + real" where
  "math_sqrt x = (if x < 0 then Inl ValueError else Inr (sqrt x))"

text \<open>
  \<^verbatim>\<open>compounding_present_value(FV, r, n, compounding_frequency=1, payment_at_beginning=False)\<close>:
  both branches of the conditional are kept as the source writes them.
\<close>

definition compounding_present_value :: "real \<Rightarrow> real \<Rightarrow> int \<Rightarrow> int \<Rightarrow> bool \<Rightarrow> error + real" where
  "compounding_present_value FV r n compounding_frequency payment_at_beginning =
     (if payment_at_beginning
      then bind (truediv r (of_int compounding_frequency)) (\<lambda>q.
           bind (pow_int (1 + q) n) (\<lambda>p. truediv FV p))
      else bind (truediv r (of_int compounding_frequency)) (\<lambda>q.
           bind (pow_int (1 + q) n) (\<lambda>p. truediv FV p)))"

text \<open>\<^verbatim>\<open>compounding_future_value(PV, r, n, compounding_frequency=1, payment_at_beginning=False)\<close>.\<close>

definition compounding_future_value :: "real \<Rightarrow> real \<Rightarrow> int \<Rightarrow> int \<Rightarrow> bool \<Rightarrow> error + real" where
  "compounding_future_value PV r n compounding_frequency payment_at_beginning =
     (if payment_at_beginning
      then bind (truediv r (of_int compounding_frequency)) (\<lambda>q.
           bind (pow_int (1 + q) n) (\<lambda>p. Inr (PV * p)))
      else bind (truediv r (of_int compounding_frequency)) (\<lambda>q.
           bind (pow_int (1 + q) n) (\<lambda>p. Inr (PV * p))))"

text \<open>\<^verbatim>\<open>perpetuity_present_value(PMT, r)\<close>.\<close>

definition perpetuity_present_value :: "real \<Rightarrow> real \<Rightarrow> error + real" where
  "perpetuity_present_value PMT r = truediv PMT r"

text \<open>
  \<^verbatim>\<open>time_weighted_rate_of_return(sub_period_returns)\<close>: the loop multiplies the
  accumulator, which starts at 1, by \<^verbatim>\<open>math.sqrt(1+i)\<close> for each element in turn.
\<close>

fun twrr_loop :: "real \<Rightarrow> real list \<Rightarrow> error + real" where
  "twrr_loop placeholder [] = Inr placeholder"
| "twrr_loop placeholder (i # rest) =
     bind (math_sqrt (1 + i)) (\<lambda>s. twrr_loop (placeholder * s) rest)"

definition time_weighted_rate_of_return :: "real list \<Rightarrow> error + real" where
  "time_weighted_rate_of_return sub_period_returns =
     bind (twrr_loop 1 sub_period_returns) (\<lambda>placeholder. Inr (placeholder - 1))"

text \<open>
  \<^verbatim>\<open>effective_annual_yield(initial_investment, final_investment, income, days_to_maturity)\<close>:
  the base is evaluated first, then the exponent \<^verbatim>\<open>365/days_to_maturity\<close>, then the
  power, then the subtraction.
\<close>

definition effective_annual_yield :: "real \<Rightarrow> real \<Rightarrow> real \<Rightarrow> real \<Rightarrow> error + pynum" where
  "effective_annual_yield initial_investment final_investment income days_to_maturity =
     bind (truediv (final_investment + income - initial_investment) initial_investment) (\<lambda>h.
     bind (truediv 365 days_to_maturity) (\<lambda>e.
     bind (pow_float (1 + h) e) (\<lambda>p. Inr (minus_one p))))"

section \<open>Binary64 arithmetic\<close>

text \<open>
  A Python float: a finite number, an infinity or NaN. A finite float is represented by
  the real number it denotes; the two zeros are one value, since the sign of a zero
  decides nothing in the functions below (a division by either zero raises).
\<close>

datatype f64 = Num real | PInf | NInf | NaN

text \<open>Rounding of a real to the nearest integer, a tie going to the even one.\<close>

definition round_even :: "real \<Rightarrow> int" where
  "round_even z =
     (let f = \<lfloor>z\<rfloor>; d = z - of_int f
      in if d < 1 / 2 then f else if 1 / 2 < d then f + 1 else if even f then f else f + 1)"

text \<open>
  Rounding of a real to binary64, to nearest with ties to even: the exponent \<open>e\<close> of \<open>x\<close>
  is held at \<open>- 1022\<close> from below (gradual underflow), the spacing of the floats around
  \<open>x\<close> is \<open>2 powi (e - 52)\<close>, and a rounded magnitude that reaches \<open>2 ^ 1024\<close> is an
  infinity. Every float operation below is the exact operation followed by \<open>rnd\<close>.
\<close>

definition rnd :: "real \<Rightarrow> f64" where
  "rnd x =
     (if x = 0 then Num 0
      else let e = max \<lfloor>log 2 \<bar>x\<bar>\<rfloor> (- 1022);
               u = 2 powi (e - 52);
               y = of_int (round_even (x / u)) * u
           in if 2 ^ 1024 \<le> \<bar>y\<bar> then (if 0 < x then PInf else NInf) else Num y)"

text \<open>Negation, addition, subtraction and multiplication of floats; none of them raises.\<close>

fun fneg :: "f64 \<Rightarrow> f64" where
  "fneg (Num x) = Num (- x)"
| "fneg PInf = NInf"
| "fneg NInf = PInf"
| "fneg NaN = NaN"

fun fadd :: "f64 \<Rightarrow> f64 \<Rightarrow> f64" where
  "fadd (Num a) (Num b) = rnd (a + b)"
| "fadd NaN _ = NaN"
| "fadd _ NaN = NaN"
| "fadd PInf NInf = NaN"
| "fadd NInf PInf = NaN"
| "fadd PInf _ = PInf"
| "fadd NInf _ = NInf"
| "fadd _ PInf = PInf"
| "fadd _ NInf = NInf"

definition fsub :: "f64 \<Rightarrow> f64 \<Rightarrow> f64" where
  "fsub a b = fadd a (fneg b)"

fun fmul :: "f64 \<Rightarrow> f64 \<Rightarrow> f64" where
  "fmul (Num a) (Num b) = rnd (a * b)"
| "fmul NaN _ = NaN"
| "fmul _ NaN = NaN"
| "fmul (Num a) PInf = (if a = 0 then NaN else if 0 < a then PInf else NInf)"
| "fmul (Num a) NInf = (if a = 0 then NaN else if 0 < a then NInf else PInf)"
| "fmul PInf (Num b) = (if b = 0 then NaN else if 0 < b then PInf else NInf)"
| "fmul NInf (Num b) = (if b = 0 then NaN else if 0 < b then NInf else PInf)"
| "fmul PInf PInf = PInf"
| "fmul PInf NInf = NInf"
| "fmul NInf PInf = NInf"
| "fmul NInf NInf = PInf"

text \<open>
  The quotient of two floats with a divisor that is not zero, and Python's \<^verbatim>\<open>a / b\<close>,
  which raises \<^verbatim>\<open>ZeroDivisionError\<close> on a zero divisor and nothing else.
\<close>

fun fquot :: "f64 \<Rightarrow> f64 \<Rightarrow> f64" where
  "fquot (Num a) (Num b) = rnd (a / b)"
| "fquot NaN _ = NaN"
| "fquot _ NaN = NaN"
| "fquot (Num a) PInf = Num 0"
| "fquot (Num a) NInf = Num 0"
| "fquot PInf (Num b) = (if 0 \<le> b then PInf else NInf)"
| "fquot NInf (Num b) = (if 0 \<le> b then NInf else PInf)"
| "fquot PInf PInf = NaN"
| "fquot PInf NInf = NaN"
| "fquot NInf PInf = NaN"
| "fquot NInf NInf = NaN"

definition fdiv :: "f64 \<Rightarrow> f64 \<Rightarrow> error + f64" where
  "fdiv a b = (if b = Num 0 then Inl ZeroDivisionError else Inr (fquot a b))"

text \<open>
  The conversion of a Python \<^verbatim>\<open>int\<close> operand to a float, which raises \<^verbatim>\<open>OverflowError\<close>
  when the integer is beyond the float range.
\<close>

definition float_of_int :: "int \<Rightarrow> error + f64" where
  "float_of_int n = (case rnd (of_int n) of Num x \<Rightarrow> Inr (Num x) | _ \<Rightarrow> Inl OverflowError)"

text \<open>
  \<^verbatim>\<open>v ** n\<close> for a float \<open>v\<close> and an \<^verbatim>\<open>int\<close> \<open>n\<close>, in the order of the interpreter's case
  analysis: the exponent is converted to a float \<open>w\<close>; \<open>w = 0\<close> gives 1; a NaN base gives
  NaN; an infinite base gives an infinity or zero; a zero base raises
  \<^verbatim>\<open>ZeroDivisionError\<close> for \<open>w < 0\<close> and gives zero otherwise; a base of magnitude 1 gives
  1 or \<open>- 1\<close>; any other base gives the rounded power of its magnitude, negated for a
  negative base and an odd exponent, and raises \<^verbatim>\<open>OverflowError\<close> when that power
  overflows. A power that underflows is zero and raises nothing. The power of the C
  library is taken to be the correctly rounded one.
\<close>

definition float_pow :: "f64 \<Rightarrow> int \<Rightarrow> error + f64" where
  "float_pow v n =
     bind (float_of_int n) (\<lambda>w.
       case w of
         Num wr \<Rightarrow>
           if wr = 0 then Inr (Num 1)
           else (case v of
               NaN \<Rightarrow> Inr NaN
             | PInf \<Rightarrow> Inr (if 0 < wr then PInf else Num 0)
             | NInf \<Rightarrow> Inr (if 0 < wr then (if odd \<lfloor>wr\<rfloor> then NInf else PInf) else Num 0)
             | Num x \<Rightarrow>
                 if x = 0 then (if wr < 0 then Inl ZeroDivisionError else Inr (Num 0))
                 else if \<bar>x\<bar> = 1 then Inr (Num (if x < 0 \<and> odd \<lfloor>wr\<rfloor> then - 1 else 1))
                 else (case rnd (\<bar>x\<bar> powi \<lfloor>wr\<rfloor>) of
                     Num y \<Rightarrow> Inr (Num (if x < 0 \<and> odd \<lfloor>wr\<rfloor> then - y else y))
                   | _ \<Rightarrow> Inl OverflowError))
       | _ \<Rightarrow> Inl OverflowError)"

text \<open>
  \<^verbatim>\<open>math.sqrt\<close> on a float: a domain error below zero and at \<open>- \<infinity>\<close>, NaN and \<open>+ \<infinity>\<close>
  returned as they are, the correctly rounded root otherwise.
\<close>

definition math_sqrt_f64 :: "f64 \<Rightarrow> error + f64" where
  "math_sqrt_f64 v =
     (case v of
        Num x \<Rightarrow> if x < 0 then Inl ValueError else Inr (rnd (sqrt x))
      | PInf \<Rightarrow> Inr PInf
      | NInf \<Rightarrow> Inl ValueError
      | NaN \<Rightarrow> Inr NaN)"

subsection \<open>Time value of money\<close>

text \<open>
  \<^verbatim>\<open>PV = FV / (1 + r/compounding_frequency)**n\<close> and
  \<^verbatim>\<open>FV = PV * (1 + r/compounding_frequency)**n\<close> on floats, with both branches of the
  conditional as the source writes them. The frequency and \<open>n\<close> are Python integers.
\<close>

definition compounding_present_value_f64 :: "f64 \<Rightarrow> f64 \<Rightarrow> int \<Rightarrow> int \<Rightarrow> bool \<Rightarrow> error + f64" where
  "compounding_present_value_f64 FV r n compounding_frequency payment_at_beginning =
     (if payment_at_beginning
      then bind (float_of_int compounding_frequency) (\<lambda>c. bind (fdiv r c) (\<lambda>q.
           bind (float_pow (fadd (Num 1) q) n) (\<lambda>p. fdiv FV p)))
      else bind (float_of_int compounding_frequency) (\<lambda>c. bind (fdiv r c) (\<lambda>q.
           bind (float_pow (fadd (Num 1) q) n) (\<lambda>p. fdiv FV p))))"

definition compounding_future_value_f64 :: "f64 \<Rightarrow> f64 \<Rightarrow> int \<Rightarrow> int \<Rightarrow> bool \<Rightarrow> error + f64" where
  "compounding_future_value_f64 PV r n compounding_frequency payment_at_beginning =
     (if payment_at_beginning
      then bind (float_of_int compounding_frequency) (\<lambda>c. bind (fdiv r c) (\<lambda>q.
           bind (float_pow (fadd (Num 1) q) n) (\<lambda>p. Inr (fmul PV p))))
      else bind (float_of_int compounding_frequency) (\<lambda>c. bind (fdiv r c) (\<lambda>q.
           bind (float_pow (fadd (Num 1) q) n) (\<lambda>p. Inr (fmul PV p)))))"

text \<open>
  The round trip
  \<^verbatim>\<open>compounding_present_value(compounding_future_value(PV, r, n), r, n)\<close>, with the
  default arguments of the source (\<^verbatim>\<open>compounding_frequency=1\<close>,
  \<^verbatim>\<open>payment_at_beginning=False\<close>).
\<close>

definition present_of_future :: "f64 \<Rightarrow> f64 \<Rightarrow> int \<Rightarrow> error + f64" where
  "present_of_future PV r n =
     bind (compounding_future_value_f64 PV r n 1 False) (\<lambda>fv.
       compounding_present_value_f64 fv r n 1 False)"

text \<open>
  \<^verbatim>\<open>annuity_present_value(PMT, r, n, annuity_due=False)\<close>:
  \<^verbatim>\<open>PMT * ((1 - (1 + r)**-n) / r) * (1 + r)\<close> for an annuity due, the same without the
  last factor otherwise. The power is evaluated before the division by \<open>r\<close>; the
  products associate to the left.
\<close>

definition annuity_present_value :: "f64 \<Rightarrow> f64 \<Rightarrow> int \<Rightarrow> bool \<Rightarrow> error + f64" where
  "annuity_present_value PMT r n annuity_due =
     (if annuity_due
      then bind (float_pow (fadd (Num 1) r) (- n)) (\<lambda>p.
           bind (fdiv (fsub (Num 1) p) r) (\<lambda>q. Inr (fmul (fmul PMT q) (fadd (Num 1) r))))
      else bind (float_pow (fadd (Num 1) r) (- n)) (\<lambda>p.
           bind (fdiv (fsub (Num 1) p) r) (\<lambda>q. Inr (fmul PMT q))))"

text \<open>
  \<^verbatim>\<open>annuity_payment_from_future_value(FV, r, n, annuity_due=False)\<close>:
  \<^verbatim>\<open>FV * r / ((1 + r) * ((1 + r)**n - 1))\<close> for an annuity due and
  \<^verbatim>\<open>FV * r / ((1 + r)**n - 1)\<close> otherwise.
\<close>

definition annuity_payment_from_future_value :: "f64 \<Rightarrow> f64 \<Rightarrow> int \<Rightarrow> bool \<Rightarrow> error + f64" where
  "annuity_payment_from_future_value FV r n annuity_due =
     (if annuity_due
      then bind (float_pow (fadd (Num 1) r) n) (\<lambda>p.
           fdiv (fmul FV r) (fmul (fadd (Num 1) r) (fsub p (Num 1))))
      else bind (float_pow (fadd (Num 1) r) n) (\<lambda>p. fdiv (fmul FV r) (fsub p (Num 1))))"

subsection \<open>Cash-flow aggregation\<close>

text \<open>
  \<^verbatim>\<open>sum([cf / (1 + rate)**n for n, cf in enumerate(cash_flows)])\<close>: the comprehension
  builds the list of terms from left to right and stops at the first term that raises;
  \<^verbatim>\<open>sum\<close> then adds the terms to 0 from left to right.
\<close>

fun npv_terms :: "f64 \<Rightarrow> (nat \<times> f64) list \<Rightarrow> error + f64 list" where
  "npv_terms rate [] = Inr []"
| "npv_terms rate ((n, cf) # rest) =
     bind (float_pow (fadd (Num 1) rate) (int n)) (\<lambda>p.
     bind (fdiv cf p) (\<lambda>t.
     bind (npv_terms rate rest) (\<lambda>ts. Inr (t # ts))))"

fun sum_py :: "f64 \<Rightarrow> f64 list \<Rightarrow> f64" where
  "sum_py acc [] = acc"
| "sum_py acc (x # xs) = sum_py (fadd acc x) xs"

definition npv_uneven_cash_flows :: "f64 \<Rightarrow> f64 list \<Rightarrow> error + f64" where
  "npv_uneven_cash_flows rate cash_flows =
     bind (npv_terms rate (enumerate 0 cash_flows)) (\<lambda>ts. Inr (sum_py (Num 0) ts))"

subsection \<open>Holding-period returns and yields\<close>

text \<open>
  \<^verbatim>\<open>(final_price - initial_price + dividends) / initial_price\<close> and
  \<^verbatim>\<open>(final_investment + income - initial_investment) / initial_investment\<close>: the two
  numerators associate to the left, each in its own order.
\<close>

definition holding_period_return :: "f64 \<Rightarrow> f64 \<Rightarrow> f64 \<Rightarrow> error + f64" where
  "holding_period_return initial_price final_price dividends =
     fdiv (fadd (fsub final_price initial_price) dividends) initial_price"

definition holding_period_yield :: "f64 \<Rightarrow> f64 \<Rightarrow> f64 \<Rightarrow> error + f64" where
  "holding_period_yield initial_investment final_investment income =
     fdiv (fsub (fadd final_investment income) initial_investment) initial_investment"

text \<open>
  The loop of \<^verbatim>\<open>time_weighted_rate_of_return\<close> on floats: the running product is
  rounded after every multiplication.
\<close>

fun twrr_loop_f64 :: "f64 \<Rightarrow> f64 list \<Rightarrow> error + f64" where
  "twrr_loop_f64 placeholder [] = Inr placeholder"
| "twrr_loop_f64 placeholder (i # rest) =
     bind (math_sqrt_f64 (fadd (Num 1) i)) (\<lambda>s. twrr_loop_f64 (fmul placeholder s) rest)"

definition time_weighted_rate_of_return_f64 :: "f64 list \<Rightarrow> error + f64" where
  "time_weighted_rate_of_return_f64 sub_period_returns =
     bind (twrr_loop_f64 (Num 1) sub_period_returns) (\<lambda>placeholder.
       Inr (fsub placeholder (Num 1)))"

section \<open>Auxiliary facts\<close>

lemma bind_Inr [simp]: "bind (Inr x) f = f x"
  by (simp add: bind_def)

lemma bind_Inl [simp]: "bind (Inl e) f = Inl e"
  by (simp add: bind_def)

text \<open>
  The loop of \<open>time_weighted_rate_of_return\<close> in closed form, in exact arithmetic: it
  raises as soon as one factor \<open>1 + r\<close> is negative, and otherwise multiplies the
  accumulator by every root.
\<close>

lemma twrr_loop_closed:
  "twrr_loop p rs =
     (if list_all (\<lambda>r. 0 \<le> 1 + r) rs then Inr (p * prod_list (map (\<lambda>r. sqrt (1 + r)) rs))
      else Inl ValueError)"
  by (induction rs arbitrary: p) (auto simp: math_sqrt_def mult.assoc)

subsection \<open>Evaluating the rounding\<close>

text \<open>The exponent of a positive real, from the two powers of 2 that enclose it.\<close>

lemma floor_log2_eqI:
  assumes "2 powi e \<le> a" "a < 2 powi (e + 1)"
  shows "\<lfloor>log 2 a\<rfloor> = e"
proof -
  have "(0::real) < 2 powi e" by simp
  then have a: "0 < a" using assms(1) by linarith
  have p1: "(2::real) powi e = 2 powr of_int e"
    by (simp add: powr_real_of_int')
  have p2: "(2::real) powi (e + 1) = 2 powr of_int (e + 1)"
    by (rule sym, rule powr_real_of_int') simp_all
  have "real_of_int e \<le> log 2 a"
    using assms(1) a unfolding p1 by (simp add: le_log_iff)
  moreover have "log 2 a < real_of_int (e + 1)"
    using assms(2) a unfolding p2 by (simp only: log_less_iff)
  ultimately show ?thesis by linarith
qed

text \<open>
  \<open>rnd x\<close> from the exponent \<open>e\<close> of \<open>x\<close> and the rounded significand \<open>m\<close>: a finite
  result, or an overflow.
\<close>

lemma rnd_eqI:
  assumes "x \<noteq> 0" "2 powi e \<le> \<bar>x\<bar>" "\<bar>x\<bar> < 2 powi (e + 1)"
    and "round_even (x / 2 powi (max e (- 1022) - 52)) = m"
    and "\<bar>of_int m * 2 powi (max e (- 1022) - 52)\<bar> < (2::real) ^ 1024"
  shows "rnd x = Num (of_int m * 2 powi (max e (- 1022) - 52))"
proof -
  have "\<lfloor>log 2 \<bar>x\<bar>\<rfloor> = e" using assms(2,3) by (rule floor_log2_eqI)
  then show ?thesis
    unfolding rnd_def Let_def using assms(1,4,5) by simp
qed

lemma rnd_PInfI:
  assumes "0 < x" "2 powi e \<le> x" "x < 2 powi (e + 1)"
    and "round_even (x / 2 powi (max e (- 1022) - 52)) = m"
    and "(2::real) ^ 1024 \<le> \<bar>of_int m * 2 powi (max e (- 1022) - 52)\<bar>"
  shows "rnd x = PInf"
proof -
  have "\<lfloor>log 2 \<bar>x\<bar>\<rfloor> = e"
    using assms(1,2,3) by (intro floor_log2_eqI) simp_all
  then show ?thesis
    unfolding rnd_def Let_def using assms(1,4,5) by simp
qed

lemma rnd_0: "rnd 0 = Num 0"
  by (simp add: rnd_def)

lemma floor_m1: "\<lfloor>- 1 :: real\<rfloor> = - 1"
  by (simp add: floor_eq_iff)

lemma fdiv_0: "fdiv a (Num 0) = Inl ZeroDivisionError"
  by (simp add: fdiv_def)

text \<open>Floats that the evaluations below meet, each with its exponent and significand.\<close>

lemma rnd_1: "rnd 1 = Num 1"
  using rnd_eqI [of "1" "0" "4503599627370496"]
  by (simp add: fsub_def fdiv_def round_even_def power_int_minus)

lemma rnd_2: "rnd 2 = Num 2"
  using rnd_eqI [of "2" "1" "4503599627370496"]
  by (simp add: fsub_def fdiv_def round_even_def power_int_minus)

lemma rnd_3: "rnd 3 = Num 3"
  using rnd_eqI [of "3" "1" "6755399441055744"]
  by (simp add: fsub_def fdiv_def round_even_def power_int_minus)

lemma rnd_4: "rnd 4 = Num 4"
  using rnd_eqI [of "4" "2" "4503599627370496"]
  by (simp add: fsub_def fdiv_def round_even_def power_int_minus)

lemma rnd_6: "rnd 6 = Num 6"
  using rnd_eqI [of "6" "2" "6755399441055744"]
  by (simp add: fsub_def fdiv_def round_even_def power_int_minus)

lemma rnd_25: "rnd 25 = Num 25"
  using rnd_eqI [of "25" "4" "7036874417766400"]
  by (simp add: fsub_def fdiv_def round_even_def power_int_minus)

lemma rnd_27: "rnd 27 = Num 27"
  using rnd_eqI [of "27" "4" "7599824371187712"]
  by (simp add: fsub_def fdiv_def round_even_def power_int_minus)

lemma rnd_50: "rnd 50 = Num 50"
  using rnd_eqI [of "50" "5" "7036874417766400"]
  by (simp add: fsub_def fdiv_def round_even_def power_int_minus)

lemma rnd_100: "rnd 100 = Num 100"
  using rnd_eqI [of "100" "6" "7036874417766400"]
  by (simp add: fsub_def fdiv_def round_even_def power_int_minus)

lemma rnd_125: "rnd 125 = Num 125"
  using rnd_eqI [of "125" "6" "8796093022208000"]
  by (simp add: fsub_def fdiv_def round_even_def power_int_minus)

lemma rnd_200: "rnd 200 = Num 200"
  using rnd_eqI [of "200" "7" "7036874417766400"]
  by (simp add: fsub_def fdiv_def round_even_def power_int_minus)

lemma rnd_300: "rnd 300 = Num 300"
  using rnd_eqI [of "300" "8" "5277655813324800"]
  by (simp add: fsub_def fdiv_def round_even_def power_int_minus)

lemma rnd_400: "rnd 400 = Num 400"
  using rnd_eqI [of "400" "8" "7036874417766400"]
  by (simp add: fsub_def fdiv_def round_even_def power_int_minus)

lemma rnd_m1: "rnd (- 1) = Num (- 1)"
  using rnd_eqI [of "(- 1)" "0" "(- 4503599627370496)"]
  by (simp add: fsub_def fdiv_def round_even_def power_int_minus)

lemma rnd_half: "rnd (1 / 2) = Num (1 / 2)"
  using rnd_eqI [of "(1 / 2)" "(- 1)" "4503599627370496"]
  by (simp add: fsub_def fdiv_def round_even_def power_int_minus)

lemma rnd_2_53_1: "rnd 9007199254740993 = Num 9007199254740992"
  using rnd_eqI [of "9007199254740993" "53" "4503599627370496"]
  by (simp add: fsub_def fdiv_def round_even_def power_int_minus)

lemma rnd_2_m53: "rnd (1 / 9007199254740992) = Num (1 / 9007199254740992)"
  using rnd_eqI [of "(1 / 9007199254740992)" "(- 53)" "4503599627370496"]
  by (simp add: fsub_def fdiv_def round_even_def power_int_minus)

lemma rnd_2_512_1: "rnd 13407807929942597099574024998205846127479365820592393377723561443721764030073546976801874298166903427690031858186486050853753882811946569946433649006084097 = Num 13407807929942597099574024998205846127479365820592393377723561443721764030073546976801874298166903427690031858186486050853753882811946569946433649006084096"
  using rnd_eqI [of "13407807929942597099574024998205846127479365820592393377723561443721764030073546976801874298166903427690031858186486050853753882811946569946433649006084097" "512" "4503599627370496"]
  by (simp add: fsub_def fdiv_def round_even_def power_int_minus)

lemma rnd_2_512: "rnd 13407807929942597099574024998205846127479365820592393377723561443721764030073546976801874298166903427690031858186486050853753882811946569946433649006084096 = Num 13407807929942597099574024998205846127479365820592393377723561443721764030073546976801874298166903427690031858186486050853753882811946569946433649006084096"
  using rnd_eqI [of "13407807929942597099574024998205846127479365820592393377723561443721764030073546976801874298166903427690031858186486050853753882811946569946433649006084096" "512" "4503599627370496"]
  by (simp add: fsub_def fdiv_def round_even_def power_int_minus)

lemma rnd_2_m512: "rnd (1 / 13407807929942597099574024998205846127479365820592393377723561443721764030073546976801874298166903427690031858186486050853753882811946569946433649006084096) = Num (1 / 13407807929942597099574024998205846127479365820592393377723561443721764030073546976801874298166903427690031858186486050853753882811946569946433649006084096)"
  using rnd_eqI [of "(1 / 13407807929942597099574024998205846127479365820592393377723561443721764030073546976801874298166903427690031858186486050853753882811946569946433649006084096)" "(- 512)" "4503599627370496"]
  by (simp add: fsub_def fdiv_def round_even_def power_int_minus)

lemma rnd_2_1024: "rnd 179769313486231590772930519078902473361797697894230657273430081157732675805500963132708477322407536021120113879871393357658789768814416622492847430639474124377767893424865485276302219601246094119453082952085005768838150682342462881473913110540827237163350510684586298239947245938479716304835356329624224137216 = PInf"
  using rnd_PInfI [of "179769313486231590772930519078902473361797697894230657273430081157732675805500963132708477322407536021120113879871393357658789768814416622492847430639474124377767893424865485276302219601246094119453082952085005768838150682342462881473913110540827237163350510684586298239947245938479716304835356329624224137216" "1024" "4503599627370496"]
  by (simp add: round_even_def power_int_minus)

text \<open>Powers with an integer exponent, at the bases met below.\<close>

lemma float_of_int_1: "float_of_int 1 = Inr (Num 1)"
  by (simp add: float_of_int_def rnd_1)

lemma pow_3_3: "float_pow (Num 3) 3 = Inr (Num 27)"
  by (simp add: float_pow_def float_of_int_def rnd_3 rnd_27)

lemma pow_2_2: "float_pow (Num 2) 2 = Inr (Num 4)"
  by (simp add: float_pow_def float_of_int_def rnd_2 rnd_4)

lemma pow_2_m1: "float_pow (Num 2) (- 1) = Inr (Num (1 / 2))"
  by (simp add: float_pow_def float_of_int_def rnd_m1 rnd_half floor_m1 power_int_minus)

lemma pow_0_1: "float_pow (Num 0) 1 = Inr (Num 0)"
  by (simp add: float_pow_def float_of_int_def rnd_1)

text \<open>The round trip at \<open>(250, 0.1, 1)\<close> and at \<open>(5, - 1, 1)\<close>, operation by operation.\<close>

lemma rt_q: "fdiv (Num (3602879701896397 / 36028797018963968)) (Num 1) = Inr (Num (3602879701896397 / 36028797018963968))"
  using rnd_eqI [of "(3602879701896397 / 36028797018963968) / 1" "(- 4)" "7205759403792794"]
  by (simp add: fsub_def fdiv_def round_even_def power_int_minus)

lemma rt_a: "fadd (Num 1) (Num (3602879701896397 / 36028797018963968)) = Num (2476979795053773 / 2251799813685248)"
  using rnd_eqI [of "1 + (3602879701896397 / 36028797018963968)" "0" "4953959590107546"]
  by (simp add: fsub_def fdiv_def round_even_def power_int_minus)

lemma rt_rp: "rnd (2476979795053773 / 2251799813685248) = Num (2476979795053773 / 2251799813685248)"
  using rnd_eqI [of "(2476979795053773 / 2251799813685248)" "0" "4953959590107546"]
  by (simp add: fsub_def fdiv_def round_even_def power_int_minus)

lemma rt_pow: "float_pow (Num (2476979795053773 / 2251799813685248)) 1 = Inr (Num (2476979795053773 / 2251799813685248))"
  by (simp add: float_pow_def float_of_int_def rnd_1 rt_rp)

lemma rt_m: "fmul (Num 250) (Num (2476979795053773 / 2251799813685248)) = Num 275"
  using rnd_eqI [of "250 * (2476979795053773 / 2251799813685248)" "8" "4837851162214400"]
  by (simp add: fsub_def fdiv_def round_even_def power_int_minus)

lemma rt_d: "fdiv (Num 275) (Num (2476979795053773 / 2251799813685248)) = Inr (Num (8796093022207999 / 35184372088832))"
  using rnd_eqI [of "275 / (2476979795053773 / 2251799813685248)" "7" "8796093022207999"]
  by (simp add: fsub_def fdiv_def round_even_def power_int_minus)

lemma rt_qm1: "fdiv (Num (- 1)) (Num 1) = Inr (Num (- 1))"
  using rnd_eqI [of "(- 1) / 1" "0" "(- 4503599627370496)"]
  by (simp add: fsub_def fdiv_def round_even_def power_int_minus)

lemma rt_a0: "fadd (Num 1) (Num (- 1)) = Num 0"
  by (simp add: fsub_def fdiv_def rnd_def)

lemma rt_m0: "fmul (Num 5) (Num 0) = Num 0"
  by (simp add: fsub_def fdiv_def rnd_def)

text \<open>The annuity payment at \<open>(1, 2, 3)\<close>, operation by operation.\<close>

lemma ap_a: "fadd (Num 1) (Num 2) = Num 3"
  using rnd_eqI [of "1 + 2" "1" "6755399441055744"]
  by (simp add: fsub_def fdiv_def round_even_def power_int_minus)

lemma ap_s: "fsub (Num 27) (Num 1) = Num 26"
  using rnd_eqI [of "27 + - 1" "4" "7318349394477056"]
  by (simp add: fsub_def fdiv_def round_even_def power_int_minus)

lemma ap_m: "fmul (Num 1) (Num 2) = Num 2"
  using rnd_eqI [of "1 * 2" "1" "4503599627370496"]
  by (simp add: fsub_def fdiv_def round_even_def power_int_minus)

lemma ap_o: "fdiv (Num 2) (Num 26) = Inr (Num (1385722962267845 / 18014398509481984))"
  using rnd_eqI [of "2 / 26" "(- 4)" "5542891849071380"]
  by (simp add: fsub_def fdiv_def round_even_def power_int_minus)

lemma ap_d: "fmul (Num 3) (Num 26) = Num 78"
  using rnd_eqI [of "3 * 26" "6" "5488762045857792"]
  by (simp add: fsub_def fdiv_def round_even_def power_int_minus)

lemma ap_due: "fdiv (Num 2) (Num 78) = Inr (Num (3695261232714253 / 144115188075855872))"
  using rnd_eqI [of "2 / 78" "(- 6)" "7390522465428506"]
  by (simp add: fsub_def fdiv_def round_even_def power_int_minus)

lemma ap_o3: "fdiv (Num (1385722962267845 / 18014398509481984)) (Num 3) = Inr (Num (7390522465428507 / 288230376151711744))"
  using rnd_eqI [of "(1385722962267845 / 18014398509481984) / 3" "(- 6)" "7390522465428507"]
  by (simp add: fsub_def fdiv_def round_even_def power_int_minus)

text \<open>
  The time-weighted return of four returns \<open>s\<^sup>2 - 1\<close>, in one order and in the reverse
  order, operation by operation.
\<close>

lemma tw_a1: "fadd (Num 1) (Num 4079807778397128) = Num 4079807778397129"
  using rnd_eqI [of "1 + 4079807778397128" "51" "8159615556794258"]
  by (simp add: fsub_def fdiv_def round_even_def power_int_minus)

lemma tw_q1: "math_sqrt_f64 (Num 4079807778397129) = Inr (Num 63873373)"
  using rnd_eqI [of "63873373" "25" "8572939003756544"] real_sqrt_unique [of "63873373" "4079807778397129"]
  by (simp add: math_sqrt_f64_def round_even_def power_int_minus)

lemma tw_a2: "fadd (Num 1) (Num 4091217141040128) = Num 4091217141040129"
  using rnd_eqI [of "1 + 4091217141040128" "51" "8182434282080258"]
  by (simp add: fsub_def fdiv_def round_even_def power_int_minus)

lemma tw_q2: "math_sqrt_f64 (Num 4091217141040129) = Inr (Num 63962623)"
  using rnd_eqI [of "63962623" "25" "8584917935980544"] real_sqrt_unique [of "63962623" "4091217141040129"]
  by (simp add: math_sqrt_f64_def round_even_def power_int_minus)

lemma tw_a3: "fadd (Num 1) (Num 305525963448600) = Num 305525963448601"
  using rnd_eqI [of "1 + 305525963448600" "48" "4888415415177616"]
  by (simp add: fsub_def fdiv_def round_even_def power_int_minus)

lemma tw_q3: "math_sqrt_f64 (Num 305525963448601) = Inr (Num 17479301)"
  using rnd_eqI [of "17479301" "24" "4692064134496256"] real_sqrt_unique [of "17479301" "305525963448601"]
  by (simp add: math_sqrt_f64_def round_even_def power_int_minus)

lemma tw_a4: "fadd (Num 1) (Num 210410661680520) = Num 210410661680521"
  using rnd_eqI [of "1 + 210410661680520" "47" "6733141173776672"]
  by (simp add: fsub_def fdiv_def round_even_def power_int_minus)

lemma tw_q4: "math_sqrt_f64 (Num 210410661680521) = Inr (Num 14505539)"
  using rnd_eqI [of "14505539" "23" "7787601951981568"] real_sqrt_unique [of "14505539" "210410661680521"]
  by (simp add: math_sqrt_f64_def round_even_def power_int_minus)

lemma tw_f1: "fmul (Num 1) (Num 63873373) = Num 63873373"
  using rnd_eqI [of "1 * 63873373" "25" "8572939003756544"]
  by (simp add: fsub_def fdiv_def round_even_def power_int_minus)

lemma tw_f2: "fmul (Num 63873373) (Num 63962623) = Num 4085508476937379"
  using rnd_eqI [of "63873373 * 63962623" "51" "8171016953874758"]
  by (simp add: fsub_def fdiv_def round_even_def power_int_minus)

lemma tw_f3: "fmul (Num 4085508476937379) (Num 17479301) = Num 71411832406440002191360"
  using rnd_eqI [of "4085508476937379 * 17479301" "75" "8512953806691170"]
  by (simp add: fsub_def fdiv_def round_even_def power_int_minus)

lemma tw_f4: "fmul (Num 71411832406440002191360) (Num 14505539) = Num 1035867120033079234178744057856"
  using rnd_eqI [of "71411832406440002191360 * 14505539" "99" "7360278573522402"]
  by (simp add: fsub_def fdiv_def round_even_def power_int_minus)

lemma tw_fs: "fsub (Num 1035867120033079234178744057856) (Num 1) = Num 1035867120033079234178744057856"
  using rnd_eqI [of "1035867120033079234178744057856 + - 1" "99" "7360278573522402"]
  by (simp add: fsub_def fdiv_def round_even_def power_int_minus)

lemma tw_b1: "fmul (Num 1) (Num 14505539) = Num 14505539"
  using rnd_eqI [of "1 * 14505539" "23" "7787601951981568"]
  by (simp add: fsub_def fdiv_def round_even_def power_int_minus)

lemma tw_b2: "fmul (Num 14505539) (Num 17479301) = Num 253546682348239"
  using rnd_eqI [of "14505539 * 17479301" "47" "8113493835143648"]
  by (simp add: fsub_def fdiv_def round_even_def power_int_minus)

lemma tw_b3: "fmul (Num 253546682348239) (Num 63962623) = Num 16217510855941166202880"
  using rnd_eqI [of "253546682348239 * 63962623" "73" "7733111789675315"]
  by (simp add: fsub_def fdiv_def round_even_def power_int_minus)

lemma tw_b4: "fmul (Num 16217510855941166202880) (Num 63873373) = Num 1035867120033079374916232413184"
  using rnd_eqI [of "16217510855941166202880 * 63873373" "99" "7360278573522403"]
  by (simp add: fsub_def fdiv_def round_even_def power_int_minus)

lemma tw_bs: "fsub (Num 1035867120033079374916232413184) (Num 1) = Num 1035867120033079374916232413184"
  using rnd_eqI [of "1035867120033079374916232413184 + - 1" "99" "7360278573522403"]
  by (simp add: fsub_def fdiv_def round_even_def power_int_minus)


subsection \<open>The comprehension, the sum and the loop\<close>

lemma sum_py_foldl: "sum_py acc xs = foldl fadd acc xs"
  by (induction xs arbitrary: acc) simp_all

text \<open>
  When the discount factors of the positions \<open>k, k + 1, \<dots>\<close> evaluate to the floats \<open>ps\<close>,
  none of them zero, the comprehension returns the quotients.
\<close>

lemma npv_terms_eval:
  "map (\<lambda>n. float_pow (fadd (Num 1) rate) (int n)) [k..<k + length cfs] = map Inr ps
   \<Longrightarrow> Num 0 \<notin> set ps
   \<Longrightarrow> npv_terms rate (enumerate k cfs) = Inr (map2 fquot cfs ps)"
proof (induction cfs arbitrary: k ps)
  case Nil
  then show ?case by simp
next
  case (Cons c cs)
  have r: "[k..<k + length (c # cs)] = k # [Suc k..<Suc k + length cs]"
    by (subst upt_rec) simp
  have m: "map (\<lambda>n. float_pow (fadd (Num 1) rate) (int n)) (k # [Suc k..<Suc k + length cs])
      = map Inr ps"
    using Cons.prems(1) unfolding r .
  then obtain p ps' where ps: "ps = p # ps'"
    by (cases ps) simp_all
  from m have hd: "float_pow (fadd (Num 1) rate) (int k) = Inr p"
    and tl: "map (\<lambda>n. float_pow (fadd (Num 1) rate) (int n)) [Suc k..<Suc k + length cs] = map Inr ps'"
    unfolding ps by simp_all
  from Cons.prems(2) have p0: "p \<noteq> Num 0" and ps0: "Num 0 \<notin> set ps'"
    by (auto simp: ps)
  have "npv_terms rate (enumerate (Suc k) cs) = Inr (map2 fquot cs ps')"
    using tl ps0 by (rule Cons.IH)
  then show ?case
    using hd p0 by (simp add: ps fdiv_def)
qed

text \<open>\<^verbatim>\<open>math.sqrt\<close> raises nothing but \<^verbatim>\<open>ValueError\<close>.\<close>

lemma math_sqrt_f64_cases:
  "math_sqrt_f64 v = Inl ValueError \<or> (\<exists>s. math_sqrt_f64 v = Inr s)"
  by (simp add: math_sqrt_f64_def split: f64.splits)

text \<open>
  The float loop raises exactly when the root of one element raises; the accumulator has
  no part in that.
\<close>

lemma twrr_loop_f64_raises:
  "\<exists>i \<in> set rs. math_sqrt_f64 (fadd (Num 1) i) = Inl ValueError
   \<Longrightarrow> twrr_loop_f64 acc rs = Inl ValueError"
proof (induction rs arbitrary: acc)
  case Nil
  then show ?case by simp
next
  case (Cons r rs)
  show ?case
  proof (cases "math_sqrt_f64 (fadd (Num 1) r) = Inl ValueError")
    case True
    then show ?thesis by simp
  next
    case False
    then obtain s where s: "math_sqrt_f64 (fadd (Num 1) r) = Inr s"
      using math_sqrt_f64_cases [of "fadd (Num 1) r"] by auto
    from False Cons.prems have "\<exists>i \<in> set rs. math_sqrt_f64 (fadd (Num 1) i) = Inl ValueError"
      by auto
    then show ?thesis
      by (simp add: s Cons.IH)
  qed
qed

lemma twrr_loop_f64_returns:
  "\<forall>i \<in> set rs. math_sqrt_f64 (fadd (Num 1) i) \<noteq> Inl ValueError
   \<Longrightarrow> \<exists>x. twrr_loop_f64 acc rs = Inr x"
proof (induction rs arbitrary: acc)
  case Nil
  then show ?case by simp
next
  case (Cons r rs)
  then obtain s where s: "math_sqrt_f64 (fadd (Num 1) r) = Inr s"
    using math_sqrt_f64_cases [of "fadd (Num 1) r"] by auto
  from Cons.prems have "\<forall>i \<in> set rs. math_sqrt_f64 (fadd (Num 1) i) \<noteq> Inl ValueError"
    by simp
  then show ?case
    by (simp add: s Cons.IH)
qed

section \<open>Properties\<close>

text \<open>
  C1. For every \<open>FV\<close>, \<open>r\<close>, \<open>n\<close> and compounding frequency, both compounding functions
  return the same result (value or raised error) for \<open>payment_at_beginning\<close> true and
  false: the flag has no effect.
\<close>

theorem payment_at_beginning_no_effect:
  "compounding_present_value FV r n cf True = compounding_present_value FV r n cf False
   \<and> compounding_future_value PV r n cf True = compounding_future_value PV r n cf False"
  by (simp add: compounding_present_value_def compounding_future_value_def)




text \<open>
  C3 fails on the code. With an initial investment of 100, a final one of \<open>- 50\<close>, no income
  and 730 days, the base is \<open>- 1 / 2\<close> and the exponent \<open>1 / 2\<close>: the call raises nothing
  and yields no NaN, it returns the complex number \<open>- 1 + sqrt (1 / 2) * \<i>\<close>, where the
  docstring of the function promises a float.
\<close>

theorem effective_annual_yield_returns_complex:
  "effective_annual_yield 100 (- 50) 0 730 = Inr (PyComplex (Complex (- 1) (sqrt (1 / 2))))"
  by (simp add: effective_annual_yield_def truediv_def pow_float_def powr_half_sqrt
      complex_eq_iff)









text \<open>
  C7. For every \<open>PMT\<close>, \<open>r\<close> and \<open>n\<close>, the annuity-due call is the ordinary call multiplied
  by the float \<open>1 + r\<close>: when the ordinary call returns \<open>v\<close> the due call returns the float
  product of \<open>v\<close> and \<open>1 + r\<close>, and when the ordinary call raises the due call raises the
  same error. In particular, when \<open>r\<close> is not zero and the power \<open>(1 + r) ** - n\<close>
  evaluates to \<open>p\<close>, both calls return, the ordinary one \<open>PMT * ((1 - p) / r)\<close>.
\<close>

theorem annuity_present_value_due:
  "(float_pow (fadd (Num 1) r) (- n) = Inr p \<and> r \<noteq> Num 0 \<longrightarrow>
      annuity_present_value PMT r n False = Inr (fmul PMT (fquot (fsub (Num 1) p) r))
    \<and> annuity_present_value PMT r n True
        = Inr (fmul (fmul PMT (fquot (fsub (Num 1) p) r)) (fadd (Num 1) r)))
   \<and> annuity_present_value PMT r n True
      = bind (annuity_present_value PMT r n False) (\<lambda>v. Inr (fmul v (fadd (Num 1) r)))"
  by (cases "float_pow (fadd (Num 1) r) (- n)")
    (simp_all add: annuity_present_value_def fdiv_def)

theorem annuity_present_value_due_witness:
  "float_pow (fadd (Num 1) (Num 1)) (- 1) = Inr (Num (1 / 2))
   \<and> annuity_present_value (Num 100) (Num 1) 1 False = Inr (Num 50)
   \<and> annuity_present_value (Num 100) (Num 1) 1 True = Inr (Num 100)"
  using annuity_present_value_due [of "Num 1" 1 "Num (1 / 2)" "Num 100"]
  by (simp add: pow_2_m1 fsub_def rnd_1 rnd_2 rnd_half rnd_50 rnd_100)




text \<open>
  C9. \<open>perpetuity_present_value\<close> returns \<open>PMT / r\<close> for every \<open>r \<noteq> 0\<close>; for \<open>r = 0\<close> the
  \<^verbatim>\<open>ZeroDivisionError\<close> of the division is the result of the call: nothing catches it
  and no value is substituted.
\<close>

theorem perpetuity_present_value_division:
  "(r \<noteq> 0 \<longrightarrow> perpetuity_present_value PMT r = Inr (PMT / r))
   \<and> perpetuity_present_value PMT 0 = Inl ZeroDivisionError"
  by (simp add: perpetuity_present_value_def truediv_def)

theorem perpetuity_present_value_division_witness:
  "(1 / 20 :: real) \<noteq> 0 \<and> perpetuity_present_value 100 (1 / 20) = Inr 2000
   \<and> perpetuity_present_value 100 0 = Inl ZeroDivisionError"
  using perpetuity_present_value_division [of "1 / 20" 100] by simp

text \<open>
  C10 as stated fails on floats: the two numerators are added in different orders. At
  \<open>a = b = 2 ^ 53\<close> and \<open>c = 1\<close>, \<open>holding_period_return\<close> computes \<open>(b - a) + c = 1\<close> and
  returns \<open>2 ^ - 53\<close>, while \<open>holding_period_yield\<close> computes \<open>b + c\<close>, which rounds to
  \<open>2 ^ 53\<close>, and returns 0.
\<close>

theorem holding_period_return_differs_from_yield:
  "holding_period_return (Num (2 ^ 53)) (Num (2 ^ 53)) (Num 1) = Inr (Num (1 / 2 ^ 53))
   \<and> holding_period_yield (Num (2 ^ 53)) (Num (2 ^ 53)) (Num 1) = Inr (Num 0)
   \<and> holding_period_return (Num (2 ^ 53)) (Num (2 ^ 53)) (Num 1)
     \<noteq> holding_period_yield (Num (2 ^ 53)) (Num (2 ^ 53)) (Num 1)"
  by (simp add: holding_period_return_def holding_period_yield_def fdiv_def fsub_def
      rnd_2_53_1 rnd_1 rnd_2_m53 rnd_0)

text \<open>
  C10, amended. For floats \<open>a \<noteq> 0\<close>, \<open>b\<close> and \<open>c\<close> such that none of the sums \<open>b - a\<close>,
  \<open>(b - a) + c\<close>, \<open>b + c\<close> and \<open>(b + c) - a\<close> needs rounding, \<open>holding_period_return\<close> and
  \<open>holding_period_yield\<close> return the same float, the quotient \<open>(b + c - a) / a\<close> rounded
  once.
\<close>

theorem holding_period_return_eq_yield:
  assumes "a \<noteq> 0"
    and "rnd (b - a) = Num (b - a)" and "rnd (b - a + c) = Num (b - a + c)"
    and "rnd (b + c) = Num (b + c)" and "rnd (b + c - a) = Num (b + c - a)"
  shows "holding_period_return (Num a) (Num b) (Num c) = holding_period_yield (Num a) (Num b) (Num c)
     \<and> holding_period_yield (Num a) (Num b) (Num c) = Inr (rnd ((b + c - a) / a))"
proof -
  have eq: "(b - a + c) / a = (b + c - a) / a"
    by simp
  show ?thesis
    using assms
    by (simp add: holding_period_return_def holding_period_yield_def fdiv_def fsub_def eq)
qed

theorem holding_period_return_eq_yield_witness:
  "(100::real) \<noteq> 0 \<and> rnd (150 - 100) = Num (150 - 100)
   \<and> rnd (150 - 100 + 50) = Num (150 - 100 + 50)
   \<and> rnd (150 + 50) = Num (150 + 50) \<and> rnd (150 + 50 - 100) = Num (150 + 50 - 100)
   \<and> holding_period_return (Num 100) (Num 150) (Num 50) = Inr (Num 1)
   \<and> holding_period_yield (Num 100) (Num 150) (Num 50) = Inr (Num 1)"
  using holding_period_return_eq_yield [of 100 150 50]
  by (simp add: rnd_1 rnd_50 rnd_100 rnd_200)

end
